theory Spec2Isabelle
  imports Main
begin

section \<open>Data model of \<open>navigation_state_manager.ts\<close>\<close>

text \<open>
  Objects that the source shares by reference are named by references: a transition
  (\<open>Navigation\<close>) object by a \<open>tref\<close>, a \<open>NavigateEvent\<close> by an \<open>eref\<close>, a listener
  function by an \<open>lref\<close>. The state payload of a history entry and of the navigation
  extras is a list of key/value pairs.
\<close>

type_synonym tref = nat
type_synonym eref = nat
type_synonym lref = nat
type_synonym payload = "(string \<times> string) list"

datatype hint = AfterTransition | Manual

datatype history_mode = Push | Replace

text \<open>The interface \<open>NavigationInfo\<close> (lines 15-22); every field is optional.\<close>

record NavigationInfo =
  intercept :: "bool option"
  focusReset :: "hint option"
  scroll :: "hint option"
  deferredCommit :: "bool option"
  transition :: "tref option"
  rollback :: "bool option"

text \<open>
  The \<open>info\<close> option of a native navigation call and the \<open>info\<close> of a native event have
  type \<open>any\<close>. The values that flow through this file are \<open>undefined\<close>, a string (line 144
  and line 153 pass the string \<open>'rollback'\<close>) and a \<open>NavigationInfo\<close> object (line 131).
\<close>

datatype info_value = Undefined | Str string | Obj NavigationInfo

text \<open>JavaScript truthiness of an optional boolean and of an \<open>info\<close> value.\<close>

definition truthy_flag :: "bool option \<Rightarrow> bool" where
  "truthy_flag b = (b = Some True)"

fun truthy :: "info_value \<Rightarrow> bool" where
  "truthy Undefined = False"
| "truthy (Str s) = (s \<noteq> [])"
| "truthy (Obj i) = True"

text \<open>
  Property reads on an \<open>info\<close> value. \<open>info?.intercept\<close> is \<open>undefined\<close> on \<open>undefined\<close>;
  a string primitive has no property \<open>intercept\<close> or \<open>rollback\<close>, so the read gives
  \<open>undefined\<close> there as well.
\<close>

fun info_intercept :: "info_value \<Rightarrow> bool option" where
  "info_intercept (Obj i) = intercept i"
| "info_intercept _ = None"

fun info_rollback :: "info_value \<Rightarrow> bool option" where
  "info_rollback (Obj i) = rollback i"
| "info_rollback _ = None"

text \<open>
  The closures this file creates: \<open>resolve\<close> and \<open>reject\<close> of the promise returned by the
  intercept handler of an event (lines 168-171), and \<open>() => event.commit()\<close> (lines 176-178).
\<close>

datatype callback = PromiseResolve eref | PromiseReject eref | EventCommit eref

record NavigationInterceptOptions =
  opt_focusReset :: "hint option"
  opt_scroll :: "hint option"
  opt_commit :: "hint option"
  opt_handler :: "tref option"

text \<open>
  Everything a handler does to its collaborators, in the order it does it: calls on the
  native navigation surface, calls on a native event, invocations of a transition's
  callbacks, and calls of the listeners registered for non-router entry changes.
\<close>

datatype effect =
    NavNavigate string "payload option" history_mode info_value
  | NavTraverseTo string info_value
  | NavAddEventListener string
  | EventIntercept eref NavigationInterceptOptions
  | Invoke callback
  | ListenerCall lref "string option" "payload option"

text \<open>\<open>NavigationHistoryEntry\<close>: \<open>id\<close>, \<open>key\<close>, \<open>url\<close> and the result of \<open>getState()\<close>.\<close>

record NavigationHistoryEntry =
  entry_id :: string
  entry_key :: string
  entry_url :: "string option"
  entry_state :: "payload option"

record NavigationExtras =
  skipLocationChange :: "bool option"
  replaceUrl :: "bool option"
  extras_state :: "payload option"

text \<open>
  A transition (\<open>Navigation\<close>). The three callbacks are the fields \<open>finish\<close>, \<open>cancel\<close>
  and \<open>commitUrl\<close>, absent until the interception bridge binds them.
\<close>

record 'u Navigation =
  initialUrl :: 'u
  finalUrl :: "'u option"
  extras :: NavigationExtras
  finish_cb :: "callback option"
  cancel_cb :: "callback option"
  commitUrl_cb :: "callback option"

type_synonym 'u heap = "tref \<Rightarrow> 'u Navigation"

datatype 'c NavigationCancellationCode = GuardRejected | NoDataFromResolver | OtherCode 'c

text \<open>
  The router events \<open>handleRouterEvent\<close> tells apart with \<open>instanceof\<close>; every other event
  class is \<open>OtherEvent\<close>. The \<open>code\<close> of a \<open>NavigationCancel\<close> is optional.
\<close>

datatype 'c router_event =
    NavigationStart
  | NavigationSkipped
  | RoutesRecognized
  | BeforeActivateRoutes
  | NavigationCancel "'c NavigationCancellationCode option"
  | NavigationError
  | NavigationEnd
  | OtherEvent

record NavigateEvent =
  event_ref :: eref
  event_info :: info_value
  canIntercept :: bool

record ('u, 'r) StateMemento =
  m_rawUrlTree :: 'u
  m_currentUrlTree :: 'u
  m_routerState :: 'r

text \<open>The fields of the class \<open>NavigationStateManager\<close>.\<close>

record ('u, 'r) NavigationStateManager =
  canceledNavigationResolution :: string
  urlUpdateStrategy :: string
  currentUrlTree :: 'u
  rawUrlTree :: 'u
  activeHistoryEntry :: NavigationHistoryEntry
  routerState :: 'r
  stateMemento :: "('u, 'r) StateMemento"
  subscriptions :: "lref list"
  info :: info_value

text \<open>
  What a method reads from the injected collaborators when it runs: the URL serializer,
  the URL handling strategy, \<open>Location.isCurrentPathEqualTo\<close> and the current entry of the
  native navigation (\<open>this.navigation.currentEntry!\<close>).
\<close>

record 'u env =
  serialize :: "'u \<Rightarrow> string"
  merge :: "'u \<Rightarrow> 'u \<Rightarrow> 'u"
  isCurrentPathEqualTo :: "string \<Rightarrow> bool"
  currentEntry :: NavigationHistoryEntry

record RouterConfigOptions =
  cfg_canceledNavigationResolution :: "string option"
  cfg_urlUpdateStrategy :: "string option"

datatype error = UnsupportedResolution | FinalUrlUndefined | TypeError

section \<open>The methods\<close>

text \<open>\<open>a || b\<close> on an optional string: \<open>undefined\<close> and the empty string are falsy.\<close>

definition or_default :: "string option \<Rightarrow> string \<Rightarrow> string" where
  "or_default a b = (case a of None \<Rightarrow> b | Some v \<Rightarrow> if v = [] then b else v)"

definition createStateMemento :: "('u, 'r) NavigationStateManager \<Rightarrow> ('u, 'r) StateMemento" where
  "createStateMemento s =
     \<lparr>m_rawUrlTree = rawUrlTree s, m_currentUrlTree = currentUrlTree s,
      m_routerState = routerState s\<rparr>"

text \<open>
  Field initialisers and constructor (lines 29-88). \<open>new UrlTree()\<close> and
  \<open>createEmptyState\<close> are given; the result is the listener registrations made on the
  native navigation together with the error thrown or the object built.
\<close>

definition constructor ::
  "RouterConfigOptions option \<Rightarrow> 'u \<Rightarrow> ('u \<Rightarrow> 'r) \<Rightarrow> NavigationHistoryEntry \<Rightarrow>
     effect list \<times> (error + ('u, 'r) NavigationStateManager)" where
  "constructor injected emptyTree createEmptyState entry =
     (let options = (case injected of
                       None \<Rightarrow> \<lparr>cfg_canceledNavigationResolution = None,
                                 cfg_urlUpdateStrategy = None\<rparr>
                     | Some opts \<Rightarrow> opts);
          resolution = or_default (cfg_canceledNavigationResolution options) ''replace'';
          strategy = or_default (cfg_urlUpdateStrategy options) ''deferred'';
          s0 = \<lparr>canceledNavigationResolution = resolution,
                urlUpdateStrategy = strategy,
                currentUrlTree = emptyTree,
                rawUrlTree = emptyTree,
                activeHistoryEntry = entry,
                routerState = createEmptyState emptyTree,
                stateMemento = \<lparr>m_rawUrlTree = emptyTree, m_currentUrlTree = emptyTree,
                                 m_routerState = createEmptyState emptyTree\<rparr>,
                subscriptions = [],
                info = Undefined\<rparr>
      in if resolution \<noteq> ''computed'' then ([], Inl UnsupportedResolution)
         else ([NavAddEventListener ''navigate'', NavAddEventListener ''currententrychange''],
               Inr s0))"

definition getCurrentUrlTree :: "('u, 'r) NavigationStateManager \<Rightarrow> 'u" where
  "getCurrentUrlTree s = currentUrlTree s"

definition getRawUrlTree :: "('u, 'r) NavigationStateManager \<Rightarrow> 'u" where
  "getRawUrlTree s = rawUrlTree s"

definition getRouterState :: "('u, 'r) NavigationStateManager \<Rightarrow> 'r" where
  "getRouterState s = routerState s"

definition restoredState :: "'u env \<Rightarrow> payload option" where
  "restoredState e = entry_state (currentEntry e)"

text \<open>
  \<open>registerNonRouterCurrentEntryChangeListener\<close> (lines 90-96) subscribes a wrapper that,
  on every emission, reads the current entry and calls the listener with its URL and
  state; \<open>emit\<close> is what one emission of the subject does.
\<close>

definition registerNonRouterCurrentEntryChangeListener ::
  "lref \<Rightarrow> ('u, 'r) NavigationStateManager \<Rightarrow> ('u, 'r) NavigationStateManager" where
  "registerNonRouterCurrentEntryChangeListener l s = s\<lparr>subscriptions := subscriptions s @ [l]\<rparr>"

definition emit :: "'u env \<Rightarrow> ('u, 'r) NavigationStateManager \<Rightarrow> effect list" where
  "emit e s =
     map (\<lambda>l. ListenerCall l (entry_url (currentEntry e)) (entry_state (currentEntry e)))
         (subscriptions s)"

text \<open>\<open>cb?.()\<close>: call the callback when it is defined.\<close>

definition invoke :: "callback option \<Rightarrow> effect list" where
  "invoke cb = (case cb of None \<Rightarrow> [] | Some c \<Rightarrow> [Invoke c])"

text \<open>\<open>{...transition.extras.state}\<close>: spreading \<open>undefined\<close> gives the empty object.\<close>

definition spread :: "payload option \<Rightarrow> payload" where
  "spread p = (case p of None \<Rightarrow> [] | Some kv \<Rightarrow> kv)"

text \<open>\<open>navigate\<close> (lines 123-138).\<close>

definition navigate :: "'u env \<Rightarrow> 'u \<Rightarrow> tref \<Rightarrow> 'u Navigation \<Rightarrow> bool \<Rightarrow> effect list" where
  "navigate e rawUrl tr t deferred =
     (let path = serialize e rawUrl;
          state = spread (extras_state (extras t));
          history = (if isCurrentPathEqualTo e path \<and> truthy_flag (replaceUrl (extras t))
                     then Replace else Push);
          i = \<lparr>intercept = Some True, focusReset = Some Manual, scroll = None,
               deferredCommit = Some deferred, transition = Some tr, rollback = None\<rparr>
      in [NavNavigate path (Some state) history (Obj i)])"

text \<open>\<open>resetInternalState\<close> (lines 204-214).\<close>

definition resetInternalState ::
  "'u env \<Rightarrow> 'u Navigation \<Rightarrow> ('u, 'r) NavigationStateManager \<Rightarrow> ('u, 'r) NavigationStateManager" where
  "resetInternalState e t s =
     (let s1 = s\<lparr>routerState := m_routerState (stateMemento s)\<rparr>;
          s2 = s1\<lparr>currentUrlTree := m_currentUrlTree (stateMemento s1)\<rparr>
      in s2\<lparr>rawUrlTree :=
              merge e (currentUrlTree s2)
                (case finalUrl t of Some f \<Rightarrow> f | None \<Rightarrow> rawUrlTree s2)\<rparr>)"

text \<open>
  \<open>cancel\<close> (lines 140-156). The parameter \<open>restoringFromCaughtError\<close> is not read by the
  body. The current entry is the one the native navigation reports after the
  transition's \<open>cancel\<close> callback has returned.
\<close>

definition cancel ::
  "'u env \<Rightarrow> 'u Navigation \<Rightarrow> ('u, 'r) NavigationStateManager \<Rightarrow>
     effect list \<times> ('u, 'r) NavigationStateManager" where
  "cancel e t s =
     (let called = invoke (cancel_cb t) in
      if entry_id (currentEntry e) \<noteq> entry_id (activeHistoryEntry s) then
        if entry_key (currentEntry e) \<noteq> entry_key (activeHistoryEntry s) then
          (called @ [NavTraverseTo (entry_key (activeHistoryEntry s)) (Str ''rollback'')], s)
        else
          (let s' = resetInternalState e t s
           in (called @ [NavNavigate (serialize e (rawUrlTree s'))
                           (entry_state (activeHistoryEntry s')) Replace (Str ''rollback'')],
               s'))
      else (called, s))"

text \<open>
  \<open>handleRouterEvent\<close> (lines 98-121). \<open>transition.finalUrl!\<close> asserts that the pipeline
  has set the final URL before \<open>RoutesRecognized\<close>; the branch where it has not is the
  result \<open>FinalUrlUndefined\<close>.
\<close>

definition handleRouterEvent ::
  "'u env \<Rightarrow> 'u heap \<Rightarrow> 'c router_event \<Rightarrow> tref \<Rightarrow> ('u, 'r) NavigationStateManager \<Rightarrow>
     error + (effect list \<times> ('u, 'r) NavigationStateManager)" where
  "handleRouterEvent e h ev tr s =
     (let t = h tr in
      case ev of
        NavigationStart \<Rightarrow> Inr ([], s\<lparr>stateMemento := createStateMemento s\<rparr>)
      | NavigationSkipped \<Rightarrow> Inr ([], s\<lparr>rawUrlTree := initialUrl t\<rparr>)
      | RoutesRecognized \<Rightarrow>
          if \<not> truthy_flag (skipLocationChange (extras t)) then
            (case finalUrl t of
               None \<Rightarrow> Inl FinalUrlUndefined
             | Some f \<Rightarrow>
                 Inr (navigate e (merge e f (initialUrl t)) tr t
                        (urlUpdateStrategy s = ''deferred''), s))
          else Inr ([], s)
      | BeforeActivateRoutes \<Rightarrow> Inr (invoke (commitUrl_cb t), s)
      | NavigationCancel code \<Rightarrow>
          if code = Some GuardRejected \<or> code = Some NoDataFromResolver
          then Inr (cancel e t s) else Inr ([], s)
      | NavigationError \<Rightarrow> Inr (cancel e t s)
      | NavigationEnd \<Rightarrow> Inr ([], s\<lparr>activeHistoryEntry := currentEntry e\<rparr>)
      | OtherEvent \<Rightarrow> Inr ([], s))"

text \<open>
  \<open>handleNavigate\<close> (lines 158-183). \<open>this.info\<close> is assigned first, so the new state is
  returned in every case. Only an object can have a truthy \<open>intercept\<close>. Writing
  \<open>commitUrl\<close> through an undefined \<open>info.transition\<close> throws a \<open>TypeError\<close>. The handler
  closure is kept in the options as the transition it captures.
\<close>

definition handleNavigate ::
  "NavigateEvent \<Rightarrow> 'u heap \<Rightarrow> ('u, 'r) NavigationStateManager \<Rightarrow>
     ('u, 'r) NavigationStateManager \<times> (error + (effect list \<times> 'u heap))" where
  "handleNavigate event h s =
     (let s' = s\<lparr>info := event_info event\<rparr> in
      if canIntercept event \<and> truthy_flag (info_intercept (event_info event)) then
        (case event_info event of
           Obj i \<Rightarrow>
             (let opts = \<lparr>opt_focusReset = focusReset i, opt_scroll = scroll i,
                          opt_commit = None, opt_handler = transition i\<rparr>
              in if truthy_flag (deferredCommit i) then
                   (case transition i of
                      None \<Rightarrow> (s', Inl TypeError)
                    | Some tr \<Rightarrow>
                        (s', Inr ([EventIntercept (event_ref event)
                                     (opts\<lparr>opt_commit := Some AfterTransition\<rparr>)],
                                  h(tr := (h tr)\<lparr>commitUrl_cb :=
                                                   Some (EventCommit (event_ref event))\<rparr>))))
                 else (s', Inr ([EventIntercept (event_ref event) opts], h)))
         | _ \<Rightarrow> (s', Inr ([], h)))
      else (s', Inr ([], h)))"


text \<open>\<open>handleCurrentEntryChange\<close> (lines 185-194).\<close>

definition handleCurrentEntryChange ::
  "'u env \<Rightarrow> ('u, 'r) NavigationStateManager \<Rightarrow> effect list \<times> ('u, 'r) NavigationStateManager" where
  "handleCurrentEntryChange e s =
     (if \<not> truthy (info s) then (emit e s, s)
      else if truthy_flag (info_rollback (info s))
           then ([], s\<lparr>activeHistoryEntry := currentEntry e\<rparr>)
           else ([], s))"

section \<open>The native navigation's side of the handshake\<close>

text \<open>
  Modelled from the spec: the native navigation surface itself is not part of
  \<open>navigation_state_manager.ts\<close>; what follows is its commit contract as the
  specification words it (section 4.4, section 6 and the glossary entry "Deferred
  commit"). A navigate call fires an interceptable navigate event that carries the call's
  metadata unchanged. When the handler claims the event with the commit deferred, the
  destination stays pending and the visible URL keeps its value until the commit is
  triggered on that event; otherwise the destination becomes visible at once, and an
  entry change event follows every change of the visible URL. Traversals and the
  settlement of handler promises are outside this contract: \<open>deliver\<close> is \<open>None\<close> there.
\<close>

text \<open>
  Modelled from the spec: the state of the native navigation that the commit contract
  speaks of (the visible URL and the intercepted navigations whose commit is deferred,
  each with its destination), next to the state manager, the transition objects and the
  log of all calls made so far.
\<close>

record ('u, 'r) world =
  nsm :: "('u, 'r) NavigationStateManager"
  navs :: "'u heap"
  visibleUrl :: string
  pending :: "eref \<Rightarrow> string option"
  nextEvent :: eref
  issued :: "effect list"










text \<open>The metadata of a native navigation call, for the calls that carry one.\<close>

fun call_info :: "effect \<Rightarrow> info_value option" where
  "call_info (NavNavigate path st mode i) = Some i"
| "call_info (NavTraverseTo k i) = Some i"
| "call_info _ = None"

section \<open>Concrete scenarios\<close>

text \<open>
  URL trees are strings, the serializer is the identity and the URL handling strategy
  keeps the query string of the raw URL. The location is at \<open>/a\<close>; the active entry is
  \<open>id1\<close> in slot \<open>k1\<close>. \<open>demo_replaced\<close> is that slot after a replace, \<open>demo_pushed\<close> a
  new slot, \<open>demo_landed\<close> the slot \<open>k1\<close> after the rollback's replace.
\<close>

definition keep_query :: "string \<Rightarrow> string \<Rightarrow> string" where
  "keep_query new raw = new @ dropWhile (\<lambda>c. c \<noteq> CHR ''?'') raw"

definition demo_active :: NavigationHistoryEntry where
  "demo_active = \<lparr>entry_id = ''id1'', entry_key = ''k1'', entry_url = Some ''/a?x=1'',
                   entry_state = Some [(''navigationId'', ''1'')]\<rparr>"

definition demo_replaced :: NavigationHistoryEntry where
  "demo_replaced = \<lparr>entry_id = ''id2'', entry_key = ''k1'', entry_url = Some ''/b?x=2'',
                     entry_state = None\<rparr>"

definition demo_pushed :: NavigationHistoryEntry where
  "demo_pushed = \<lparr>entry_id = ''id2'', entry_key = ''k2'', entry_url = Some ''/b?x=2'',
                   entry_state = None\<rparr>"

definition demo_landed :: NavigationHistoryEntry where
  "demo_landed = \<lparr>entry_id = ''id3'', entry_key = ''k1'', entry_url = Some ''/a?x=2'',
                   entry_state = Some [(''navigationId'', ''1'')]\<rparr>"

definition demo_env :: "NavigationHistoryEntry \<Rightarrow> string env" where
  "demo_env entry = \<lparr>serialize = (\<lambda>u. u), merge = keep_query,
                      isCurrentPathEqualTo = (\<lambda>p. p = ''/a''), currentEntry = entry\<rparr>"

definition demo_nav :: "string Navigation" where
  "demo_nav = \<lparr>initialUrl = ''/a'', finalUrl = Some ''/b'',
                extras = \<lparr>skipLocationChange = None, replaceUrl = Some True,
                          extras_state = None\<rparr>,
                finish_cb = None, cancel_cb = None, commitUrl_cb = None\<rparr>"

definition demo_state :: "(string, nat) NavigationStateManager" where
  "demo_state = \<lparr>canceledNavigationResolution = ''computed'', urlUpdateStrategy = ''deferred'',
                  currentUrlTree = ''/b'', rawUrlTree = ''/b?x=2'',
                  activeHistoryEntry = demo_active, routerState = 2,
                  stateMemento = \<lparr>m_rawUrlTree = ''/a?x=1'', m_currentUrlTree = ''/a'',
                                   m_routerState = 1\<rparr>,
                  subscriptions = [5, 6], info = Undefined\<rparr>"

definition demo_world :: "(string, nat) world" where
  "demo_world = \<lparr>nsm = demo_state, navs = (\<lambda>r. demo_nav), visibleUrl = ''/a'',
                  pending = (\<lambda>x. None), nextEvent = 0, issued = []\<rparr>"


text \<open>
  The state manager as the constructor builds it under a configuration that asks for
  \<open>'computed'\<close>, with \<open>''/''\<close> for the empty URL tree and \<open>0\<close> for the empty router state.
\<close>

definition demo_config :: RouterConfigOptions where
  "demo_config = \<lparr>cfg_canceledNavigationResolution = Some ''computed'',
                   cfg_urlUpdateStrategy = None\<rparr>"

definition demo_initial :: "(string, nat) NavigationStateManager" where
  "demo_initial = \<lparr>canceledNavigationResolution = ''computed'', urlUpdateStrategy = ''deferred'',
                    currentUrlTree = ''/'', rawUrlTree = ''/'',
                    activeHistoryEntry = demo_active, routerState = 0,
                    stateMemento = \<lparr>m_rawUrlTree = ''/'', m_currentUrlTree = ''/'',
                                     m_routerState = 0\<rparr>,
                    subscriptions = [], info = Undefined\<rparr>"

lemmas demo = demo_env_def demo_nav_def demo_state_def demo_active_def demo_replaced_def
  demo_pushed_def demo_landed_def keep_query_def demo_world_def

section \<open>Auxiliary facts\<close>

lemma resetInternalState_eq:
  "resetInternalState e t s =
     s\<lparr>routerState := m_routerState (stateMemento s),
       currentUrlTree := m_currentUrlTree (stateMemento s),
       rawUrlTree := merge e (m_currentUrlTree (stateMemento s))
                       (case finalUrl t of Some f \<Rightarrow> f | None \<Rightarrow> rawUrlTree s)\<rparr>"
  by (cases "finalUrl t") (simp_all add: resetInternalState_def Let_def)

lemma handleNavigate_keeps_router_state:
  "routerState (fst (handleNavigate ev h s)) = routerState s
   \<and> currentUrlTree (fst (handleNavigate ev h s)) = currentUrlTree s
   \<and> rawUrlTree (fst (handleNavigate ev h s)) = rawUrlTree s
   \<and> activeHistoryEntry (fst (handleNavigate ev h s)) = activeHistoryEntry s
   \<and> stateMemento (fst (handleNavigate ev h s)) = stateMemento s
   \<and> subscriptions (fst (handleNavigate ev h s)) = subscriptions s
   \<and> info (fst (handleNavigate ev h s)) = event_info ev"
  by (simp add: handleNavigate_def Let_def split: info_value.splits option.splits)

lemma handleCurrentEntryChange_keeps_router_state:
  "routerState (snd (handleCurrentEntryChange e s)) = routerState s
   \<and> currentUrlTree (snd (handleCurrentEntryChange e s)) = currentUrlTree s
   \<and> rawUrlTree (snd (handleCurrentEntryChange e s)) = rawUrlTree s
   \<and> stateMemento (snd (handleCurrentEntryChange e s)) = stateMemento s"
  by (simp add: handleCurrentEntryChange_def)

lemma handleNavigate_state:
  "fst (handleNavigate ev h s) = s\<lparr>info := event_info ev\<rparr>"
  by (simp add: handleNavigate_def Let_def split: info_value.splits option.splits)

lemma entry_change_rollback_flag:
  "info s = Obj i \<Longrightarrow> rollback i = Some True \<Longrightarrow>
   handleCurrentEntryChange e s = ([], s\<lparr>activeHistoryEntry := currentEntry e\<rparr>)"
  by (simp add: handleCurrentEntryChange_def truthy_flag_def)











lemma register_all:
  "subscriptions (foldl (\<lambda>s l. registerNonRouterCurrentEntryChangeListener l s) s0 ls)
     = subscriptions s0 @ ls
   \<and> currentUrlTree (foldl (\<lambda>s l. registerNonRouterCurrentEntryChangeListener l s) s0 ls)
     = currentUrlTree s0
   \<and> rawUrlTree (foldl (\<lambda>s l. registerNonRouterCurrentEntryChangeListener l s) s0 ls)
     = rawUrlTree s0
   \<and> routerState (foldl (\<lambda>s l. registerNonRouterCurrentEntryChangeListener l s) s0 ls)
     = routerState s0
   \<and> activeHistoryEntry (foldl (\<lambda>s l. registerNonRouterCurrentEntryChangeListener l s) s0 ls)
     = activeHistoryEntry s0"
  by (induction ls arbitrary: s0)
     (simp_all add: registerNonRouterCurrentEntryChangeListener_def)

lemma constructor_no_subscriptions:
  "snd (constructor injected u mk entry) = Inr sc \<Longrightarrow> subscriptions sc = [] \<and> info sc = Undefined"
  by (auto simp add: constructor_def Let_def split: if_splits)

section \<open>Rollback on cancellation\<close>

text \<open>
  Claim C1 says that a cancellation which finds the current entry with another \<open>id\<close> but
  the same \<open>key\<close> as \<open>activeHistoryEntry\<close> issues a traversal back to that key and does
  not restore the router state or issue a replace-navigate. In the scenario below the
  slot \<open>k1\<close> was replaced in place (\<open>id2\<close> against \<open>id1\<close>): \<open>cancel\<close> issues exactly one
  call, a replace-navigate, no traversal, and the router state goes back from \<open>2\<close> to the
  memento's \<open>1\<close>. The claim as stated is false there.
\<close>

theorem cancel_same_key_traversal_counterexample:
  "entry_id (currentEntry (demo_env demo_replaced)) \<noteq> entry_id (activeHistoryEntry demo_state)
   \<and> entry_key (currentEntry (demo_env demo_replaced)) = entry_key (activeHistoryEntry demo_state)
   \<and> fst (cancel (demo_env demo_replaced) demo_nav demo_state)
       = [NavNavigate ''/a'' (Some [(''navigationId'', ''1'')]) Replace (Str ''rollback'')]
   \<and> NavTraverseTo ''k1'' (Str ''rollback'') \<notin> set (fst (cancel (demo_env demo_replaced) demo_nav demo_state))
   \<and> routerState (snd (cancel (demo_env demo_replaced) demo_nav demo_state)) = 1
   \<and> routerState demo_state = 2"
  by (simp add: demo cancel_def resetInternalState_def invoke_def Let_def)

text \<open>
  Claim C1 as amended: when the \<open>id\<close> of the current entry differs from that of
  \<open>activeHistoryEntry\<close>, \<open>cancel\<close> first calls the transition's \<open>cancel\<close> callback if it is
  bound; then, if the \<open>key\<close> differs as well, it issues a traversal back to
  \<open>activeHistoryEntry.key\<close> tagged as a rollback and leaves the router state alone (no
  restore, no replace-navigate); if the \<open>key\<close> is the same, it takes the router state and
  the current URL tree from the memento, sets the raw URL tree to the strategy's merge of
  the memento's current URL tree with the transition's final URL (with the raw URL tree
  held so far when there is no final URL; the memento's raw URL tree is not read), and
  issues a replace-navigate to the serialization of that raw URL tree, tagged as a
  rollback, and no traversal.
\<close>

theorem cancel_rollback_branches:
  "(entry_id (currentEntry e) \<noteq> entry_id (activeHistoryEntry s)
      \<and> entry_key (currentEntry e) \<noteq> entry_key (activeHistoryEntry s)
    \<longrightarrow> cancel e t s =
          (invoke (cancel_cb t) @ [NavTraverseTo (entry_key (activeHistoryEntry s)) (Str ''rollback'')], s))
   \<and> (entry_id (currentEntry e) \<noteq> entry_id (activeHistoryEntry s)
      \<and> entry_key (currentEntry e) = entry_key (activeHistoryEntry s)
    \<longrightarrow> cancel e t s =
          (invoke (cancel_cb t) @
             [NavNavigate
                (serialize e (merge e (m_currentUrlTree (stateMemento s))
                   (case finalUrl t of Some f \<Rightarrow> f | None \<Rightarrow> rawUrlTree s)))
                (entry_state (activeHistoryEntry s)) Replace (Str ''rollback'')],
           s\<lparr>routerState := m_routerState (stateMemento s),
             currentUrlTree := m_currentUrlTree (stateMemento s),
             rawUrlTree := merge e (m_currentUrlTree (stateMemento s))
                   (case finalUrl t of Some f \<Rightarrow> f | None \<Rightarrow> rawUrlTree s)\<rparr>)
        \<and> (\<forall>k i. NavTraverseTo k i \<notin> set (fst (cancel e t s))))"
  by (cases "cancel_cb t") (auto simp add: cancel_def resetInternalState_eq Let_def invoke_def)

theorem cancel_rollback_branches_witness:
  "entry_id (currentEntry (demo_env demo_pushed)) \<noteq> entry_id (activeHistoryEntry demo_state)
   \<and> entry_key (currentEntry (demo_env demo_pushed)) \<noteq> entry_key (activeHistoryEntry demo_state)
   \<and> cancel (demo_env demo_pushed) demo_nav demo_state
     = ([NavTraverseTo ''k1'' (Str ''rollback'')], demo_state)
   \<and> entry_id (currentEntry (demo_env demo_replaced)) \<noteq> entry_id (activeHistoryEntry demo_state)
   \<and> entry_key (currentEntry (demo_env demo_replaced)) = entry_key (activeHistoryEntry demo_state)
   \<and> cancel (demo_env demo_replaced) demo_nav demo_state
     = ([NavNavigate ''/a'' (Some [(''navigationId'', ''1'')]) Replace (Str ''rollback'')],
        demo_state\<lparr>routerState := 1, currentUrlTree := ''/a'', rawUrlTree := ''/a''\<rparr>)"
  using cancel_rollback_branches [of "demo_env demo_pushed" demo_state demo_nav]
        cancel_rollback_branches [of "demo_env demo_replaced" demo_state demo_nav]
  by (simp add: demo invoke_def)

text \<open>
  Claim C2: a transition cancelled (guard rejected, no data from resolver, or navigation
  error) while the current entry has another \<open>id\<close> but the same \<open>key\<close> as
  \<open>activeHistoryEntry\<close> leaves \<open>getRouterState()\<close> and \<open>getCurrentUrlTree()\<close> equal to the
  values in the memento, and \<open>getRawUrlTree()\<close> equal to the strategy's merge of the
  memento's current URL tree with the transition's final URL, or with the raw URL tree
  held before the reset when there is no final URL. The native events that the rollback
  navigation fires afterwards (navigate, then entry change) keep the three values.
\<close>

theorem cancel_same_key_restores_state:
  assumes "entry_id (currentEntry e) \<noteq> entry_id (activeHistoryEntry s)"
    and "entry_key (currentEntry e) = entry_key (activeHistoryEntry s)"
    and "ev = NavigationCancel (Some GuardRejected) \<or> ev = NavigationCancel (Some NoDataFromResolver)
         \<or> ev = NavigationError"
    and "s' = snd (cancel e (h tr) s)"
  shows "handleRouterEvent e h ev tr s = Inr (cancel e (h tr) s)
    \<and> getRouterState s' = m_routerState (stateMemento s)
    \<and> getCurrentUrlTree s' = m_currentUrlTree (stateMemento s)
    \<and> getRawUrlTree s' =
        merge e (m_currentUrlTree (stateMemento s))
          (case finalUrl (h tr) of Some f \<Rightarrow> f | None \<Rightarrow> rawUrlTree s)
    \<and> (\<forall>nev h' e'.
          getRouterState (snd (handleCurrentEntryChange e' (fst (handleNavigate nev h' s'))))
            = getRouterState s'
        \<and> getCurrentUrlTree (snd (handleCurrentEntryChange e' (fst (handleNavigate nev h' s'))))
            = getCurrentUrlTree s'
        \<and> getRawUrlTree (snd (handleCurrentEntryChange e' (fst (handleNavigate nev h' s'))))
            = getRawUrlTree s')"
proof -
  have r: "handleRouterEvent e h ev tr s = Inr (cancel e (h tr) s)"
    using assms(3) by (auto simp add: handleRouterEvent_def)
  have s': "s' = resetInternalState e (h tr) s"
    using assms(1,2,4) by (simp add: cancel_def Let_def)
  have fields: "routerState s' = m_routerState (stateMemento s)"
    "currentUrlTree s' = m_currentUrlTree (stateMemento s)"
    "rawUrlTree s' = merge e (m_currentUrlTree (stateMemento s))
          (case finalUrl (h tr) of Some f \<Rightarrow> f | None \<Rightarrow> rawUrlTree s)"
    unfolding s' resetInternalState_eq by simp_all
  show ?thesis
    using r fields
    by (simp add: getRouterState_def getCurrentUrlTree_def getRawUrlTree_def
        handleNavigate_keeps_router_state handleCurrentEntryChange_keeps_router_state)
qed

theorem cancel_same_key_restores_state_witness:
  "entry_id (currentEntry (demo_env demo_replaced)) \<noteq> entry_id (activeHistoryEntry demo_state)
   \<and> entry_key (currentEntry (demo_env demo_replaced)) = entry_key (activeHistoryEntry demo_state)
   \<and> handleRouterEvent (demo_env demo_replaced) (\<lambda>r. demo_nav\<lparr>finalUrl := None\<rparr>)
          (NavigationError :: nat router_event) 0 demo_state
        = Inr (cancel (demo_env demo_replaced) (demo_nav\<lparr>finalUrl := None\<rparr>) demo_state)
   \<and> getRouterState (snd (cancel (demo_env demo_replaced) (demo_nav\<lparr>finalUrl := None\<rparr>) demo_state)) = 1
   \<and> getCurrentUrlTree (snd (cancel (demo_env demo_replaced) (demo_nav\<lparr>finalUrl := None\<rparr>) demo_state)) = ''/a''
   \<and> getRawUrlTree (snd (cancel (demo_env demo_replaced) (demo_nav\<lparr>finalUrl := None\<rparr>) demo_state)) = ''/a?x=2''
   \<and> m_rawUrlTree (stateMemento demo_state) = ''/a?x=1''"
  using cancel_same_key_restores_state [of "demo_env demo_replaced" demo_state
      "NavigationError :: nat router_event"
      "snd (cancel (demo_env demo_replaced) (demo_nav\<lparr>finalUrl := None\<rparr>) demo_state)"
      "\<lambda>r. demo_nav\<lparr>finalUrl := None\<rparr>" 0]
  by (simp add: demo)

section \<open>Router events\<close>

text \<open>
  Claim C3: on \<open>RoutesRecognized\<close> for a transition without \<open>skipLocationChange\<close>,
  \<open>handleRouterEvent\<close> issues exactly one native navigate call; its path is the
  serialization of \<open>merge(finalUrl, initialUrl)\<close>, and its history mode is \<open>replace\<close> when
  the path equals the current location path and the transition asked for \<open>replaceUrl\<close>,
  and \<open>push\<close> otherwise; so it is \<open>push\<close> whenever the path differs from the current one,
  as from \<open>/a\<close> to \<open>/b\<close> with \<open>replaceUrl\<close> set.
\<close>

theorem routes_recognized_issues_navigate:
  assumes "\<not> truthy_flag (skipLocationChange (extras (h tr)))"
    and "finalUrl (h tr) = Some f"
    and "path = serialize e (merge e f (initialUrl (h tr)))"
  shows "handleRouterEvent e h (RoutesRecognized :: 'c router_event) tr s =
      Inr ([NavNavigate path (Some (spread (extras_state (extras (h tr)))))
              (if isCurrentPathEqualTo e path \<and> truthy_flag (replaceUrl (extras (h tr)))
               then Replace else Push)
              (Obj \<lparr>intercept = Some True, focusReset = Some Manual, scroll = None,
                    deferredCommit = Some (urlUpdateStrategy s = ''deferred''),
                    transition = Some tr, rollback = None\<rparr>)], s)
    \<and> (\<not> isCurrentPathEqualTo e path \<longrightarrow>
         handleRouterEvent e h (RoutesRecognized :: 'c router_event) tr s =
           Inr ([NavNavigate path (Some (spread (extras_state (extras (h tr))))) Push
                   (Obj \<lparr>intercept = Some True, focusReset = Some Manual, scroll = None,
                         deferredCommit = Some (urlUpdateStrategy s = ''deferred''),
                         transition = Some tr, rollback = None\<rparr>)], s))"
  using assms by (simp add: handleRouterEvent_def navigate_def Let_def)

theorem routes_recognized_issues_navigate_witness:
  "\<not> truthy_flag (skipLocationChange (extras demo_nav))
   \<and> initialUrl demo_nav = ''/a'' \<and> finalUrl demo_nav = Some ''/b''
   \<and> replaceUrl (extras demo_nav) = Some True
   \<and> \<not> isCurrentPathEqualTo (demo_env demo_active) ''/b''
   \<and> handleRouterEvent (demo_env demo_active) (\<lambda>r. demo_nav) (RoutesRecognized :: nat router_event)
        0 demo_state =
      Inr ([NavNavigate ''/b'' (Some []) Push
              (Obj \<lparr>intercept = Some True, focusReset = Some Manual, scroll = None,
                    deferredCommit = Some True, transition = Some 0, rollback = None\<rparr>)],
           demo_state)"
  using routes_recognized_issues_navigate [of "\<lambda>r. demo_nav" 0 "''/b''" "''/b''"
      "demo_env demo_active" demo_state]
  by (simp add: demo truthy_flag_def spread_def)

text \<open>
  Claim C4: the constructor throws exactly when the effective
  \<open>canceledNavigationResolution\<close> (\<open>'replace'\<close> when nothing is configured) is not
  \<open>'computed'\<close>; this is its only error; when it throws, no listener has been registered
  on the native navigation, and otherwise the two listeners are; with no router
  configuration at all it throws.
\<close>

theorem constructor_fails_iff_not_computed:
  "(snd (constructor injected u mk entry) = Inl UnsupportedResolution
      \<longleftrightarrow> or_default (case injected of None \<Rightarrow> None
                        | Some opts \<Rightarrow> cfg_canceledNavigationResolution opts) ''replace''
           \<noteq> ''computed'')
   \<and> (isl (snd (constructor injected u mk entry))
      \<longleftrightarrow> snd (constructor injected u mk entry) = Inl UnsupportedResolution)
   \<and> (isl (snd (constructor injected u mk entry))
      \<longleftrightarrow> \<not> (\<exists>opts. injected = Some opts
                  \<and> cfg_canceledNavigationResolution opts = Some ''computed''))
   \<and> fst (constructor injected u mk entry) =
       (if isl (snd (constructor injected u mk entry)) then []
        else [NavAddEventListener ''navigate'', NavAddEventListener ''currententrychange''])
   \<and> constructor None u mk entry = ([], Inl UnsupportedResolution)"
  by (cases injected) (auto simp add: constructor_def or_default_def Let_def split: option.splits)

text \<open>
  Claim C9: on \<open>NavigationSkipped\<close>, \<open>handleRouterEvent\<close> sets the raw URL tree to the
  transition's initial URL, leaves the current URL tree, the router state, the active
  history entry and the memento as they are, and makes no call.
\<close>

theorem navigation_skipped_sets_raw_url_only:
  "handleRouterEvent e h NavigationSkipped tr s = Inr ([], s\<lparr>rawUrlTree := initialUrl (h tr)\<rparr>)
   \<and> getRawUrlTree (s\<lparr>rawUrlTree := initialUrl (h tr)\<rparr>) = initialUrl (h tr)
   \<and> currentUrlTree (s\<lparr>rawUrlTree := initialUrl (h tr)\<rparr>) = currentUrlTree s
   \<and> routerState (s\<lparr>rawUrlTree := initialUrl (h tr)\<rparr>) = routerState s
   \<and> activeHistoryEntry (s\<lparr>rawUrlTree := initialUrl (h tr)\<rparr>) = activeHistoryEntry s
   \<and> stateMemento (s\<lparr>rawUrlTree := initialUrl (h tr)\<rparr>) = stateMemento s"
  by (simp add: handleRouterEvent_def getRawUrlTree_def)

text \<open>
  Claim C10: on a \<open>NavigationCancel\<close> whose code is neither \<open>GuardRejected\<close> nor
  \<open>NoDataFromResolver\<close> (an absent code included), \<open>handleRouterEvent\<close> changes nothing
  and makes no call, so the transition's \<open>cancel\<close> callback is not invoked either; with
  one of the two codes, and on \<open>NavigationError\<close>, it runs \<open>cancel\<close>.
\<close>

theorem cancel_with_other_code_is_noop:
  fixes code :: "'c NavigationCancellationCode option"
  shows "(code \<noteq> Some GuardRejected \<and> code \<noteq> Some NoDataFromResolver
      \<longrightarrow> handleRouterEvent e h (NavigationCancel code) tr s = Inr ([], s))
   \<and> (code = Some GuardRejected \<or> code = Some NoDataFromResolver
      \<longrightarrow> handleRouterEvent e h (NavigationCancel code) tr s = Inr (cancel e (h tr) s))
   \<and> handleRouterEvent e h (NavigationError :: 'c router_event) tr s = Inr (cancel e (h tr) s)"
  by (simp add: handleRouterEvent_def)

theorem cancel_with_other_code_is_noop_witness:
  "handleRouterEvent (demo_env demo_replaced) (\<lambda>r. demo_nav\<lparr>cancel_cb := Some (PromiseReject 3)\<rparr>)
      (NavigationCancel (Some (OtherCode (1::nat)))) 0 demo_state = Inr ([], demo_state)
   \<and> handleRouterEvent (demo_env demo_replaced) (\<lambda>r. demo_nav\<lparr>cancel_cb := Some (PromiseReject 3)\<rparr>)
      (NavigationCancel (None :: nat NavigationCancellationCode option)) 0 demo_state
       = Inr ([], demo_state)
   \<and> handleRouterEvent (demo_env demo_replaced) (\<lambda>r. demo_nav\<lparr>cancel_cb := Some (PromiseReject 3)\<rparr>)
      (NavigationCancel (Some (GuardRejected :: nat NavigationCancellationCode))) 0 demo_state
       = Inr ([Invoke (PromiseReject 3),
               NavNavigate ''/a'' (Some [(''navigationId'', ''1'')]) Replace (Str ''rollback'')],
              demo_state\<lparr>routerState := 1, currentUrlTree := ''/a'', rawUrlTree := ''/a''\<rparr>)"
  using cancel_with_other_code_is_noop [of "Some (OtherCode (1::nat))" "demo_env demo_replaced"
          "\<lambda>r. demo_nav\<lparr>cancel_cb := Some (PromiseReject 3)\<rparr>" 0 demo_state]
        cancel_with_other_code_is_noop [of "None :: nat NavigationCancellationCode option"
          "demo_env demo_replaced" "\<lambda>r. demo_nav\<lparr>cancel_cb := Some (PromiseReject 3)\<rparr>" 0 demo_state]
        cancel_with_other_code_is_noop [of "Some (GuardRejected :: nat NavigationCancellationCode)"
          "demo_env demo_replaced" "\<lambda>r. demo_nav\<lparr>cancel_cb := Some (PromiseReject 3)\<rparr>" 0 demo_state]
  by (simp add: demo cancel_def resetInternalState_eq invoke_def Let_def)

section \<open>Correlation metadata\<close>

text \<open>
  Claim C5 says that every native navigation call of this class, the rollback calls
  included, carries metadata with \<open>intercept = true\<close>. The traversal that \<open>cancel\<close> issues
  in the scenario below carries the string \<open>'rollback'\<close>, whose \<open>intercept\<close> property is
  undefined. The claim as stated is false there.
\<close>

theorem rollback_call_intercept_counterexample:
  "fst (cancel (demo_env demo_pushed) demo_nav demo_state)
     = [NavTraverseTo ''k1'' (Str ''rollback'')]
   \<and> call_info (NavTraverseTo ''k1'' (Str ''rollback'')) = Some (Str ''rollback'')
   \<and> info_intercept (Str ''rollback'') \<noteq> Some True"
  by (simp add: demo cancel_def invoke_def Let_def)

text \<open>
  Claim C5 as amended: the navigate call issued by \<open>navigate\<close> (the one made on
  \<open>RoutesRecognized\<close>) carries a \<open>NavigationInfo\<close> with \<open>intercept = true\<close>; the calls issued
  by \<open>cancel\<close> carry metadata whose \<open>intercept\<close> is not true, and \<open>handleNavigate\<close> does not
  claim an event that carries such metadata.
\<close>

theorem native_call_metadata:
  "(\<forall>c \<in> set (navigate e raw tr t d).
       \<exists>i. call_info c = Some (Obj i) \<and> intercept i = Some True)
   \<and> (\<forall>c \<in> set (fst (cancel e t s)).
       \<forall>v. call_info c = Some v \<longrightarrow>
         \<not> truthy_flag (info_intercept v)
         \<and> snd (handleNavigate \<lparr>event_ref = x, event_info = v, canIntercept = ci\<rparr> h s')
             = Inr ([], h))"
  by (cases "cancel_cb t")
     (auto simp add: navigate_def cancel_def Let_def invoke_def truthy_flag_def
        handleNavigate_def)

theorem native_call_metadata_witness:
  "navigate (demo_env demo_pushed) ''/b'' 0 demo_nav True
     = [NavNavigate ''/b'' (Some []) Push
          (Obj \<lparr>intercept = Some True, focusReset = Some Manual, scroll = None,
                deferredCommit = Some True, transition = Some 0, rollback = None\<rparr>)]
   \<and> fst (cancel (demo_env demo_pushed) demo_nav demo_state)
        = [NavTraverseTo ''k1'' (Str ''rollback'')]
   \<and> \<not> truthy_flag (info_intercept (Str ''rollback''))
   \<and> snd (handleNavigate \<lparr>event_ref = 0, event_info = Str ''rollback'', canIntercept = True\<rparr>
            (\<lambda>r. demo_nav) demo_state) = Inr ([], \<lambda>r. demo_nav)"
proof -
  have calls: "navigate (demo_env demo_pushed) ''/b'' 0 demo_nav True
     = [NavNavigate ''/b'' (Some []) Push
          (Obj \<lparr>intercept = Some True, focusReset = Some Manual, scroll = None,
                deferredCommit = Some True, transition = Some 0, rollback = None\<rparr>)]"
    "fst (cancel (demo_env demo_pushed) demo_nav demo_state)
        = [NavTraverseTo ''k1'' (Str ''rollback'')]"
    by (simp_all add: demo navigate_def cancel_def invoke_def Let_def spread_def truthy_flag_def)
  show ?thesis
    using calls
      native_call_metadata [of "demo_env demo_pushed" "''/b''" 0 demo_nav True demo_state
        0 True "\<lambda>r. demo_nav" demo_state]
    by simp
qed

text \<open>
  Claim C6 says that an entry change whose recorded metadata carries the rollback tag
  makes the handler set \<open>activeHistoryEntry\<close> to the new current entry, the tag being the
  one \<open>cancel\<close> attaches to its rollback calls. The handler tests \<open>info.rollback\<close>
  (\<open>entry_change_rollback_flag\<close> is that branch), but \<open>cancel\<close> attaches the string
  \<open>'rollback'\<close>, which has no such property. Below, the rollback replace-navigate of
  \<open>cancel\<close> is followed by its navigate event and by the entry change on the entry it
  created (\<open>id3\<close>): no listener is called and \<open>activeHistoryEntry\<close> is still \<open>id1\<close>.
\<close>

theorem rollback_tag_not_recognised:
  "fst (cancel (demo_env demo_replaced) demo_nav demo_state)
     = [NavNavigate ''/a'' (Some [(''navigationId'', ''1'')]) Replace (Str ''rollback'')]
   \<and> handleCurrentEntryChange (demo_env demo_landed)
        (fst (handleNavigate \<lparr>event_ref = 0, event_info = Str ''rollback'', canIntercept = True\<rparr>
                (\<lambda>r. demo_nav) (snd (cancel (demo_env demo_replaced) demo_nav demo_state))))
     = ([], demo_state\<lparr>routerState := 1, currentUrlTree := ''/a'', rawUrlTree := ''/a'',
                       info := Str ''rollback''\<rparr>)
   \<and> activeHistoryEntry (demo_state\<lparr>routerState := 1, currentUrlTree := ''/a'',
                            rawUrlTree := ''/a'', info := Str ''rollback''\<rparr>) = demo_active
   \<and> currentEntry (demo_env demo_landed) = demo_landed
   \<and> demo_active \<noteq> demo_landed"
  by (simp add: demo cancel_def resetInternalState_eq invoke_def Let_def
      handleNavigate_def handleCurrentEntryChange_def truthy_flag_def)

text \<open>
  Claim C7. Listeners are registered with \<open>registerNonRouterCurrentEntryChangeListener\<close>;
  the state manager is built with none, so after registering \<open>ls\<close> the registered
  listeners are the earlier ones followed by \<open>ls\<close>. The entry-change handler reads the
  metadata that the preceding navigate event recorded in \<open>this.info\<close>. Metadata counts as
  recorded when that value is truthy, which is the handler's own test (\<open>!info\<close>); within
  the declared type \<open>NavigationInfo | undefined\<close> this is the same as being defined. When
  none was recorded (\<open>undefined\<close>, or another falsy value), every registered listener is
  called, in order of registration, with the URL and the state of the current entry, and
  the current URL tree, the raw URL tree, the router state and the active history entry
  are those from before the navigate event. When metadata was recorded, no listener is
  called.
\<close>

theorem entry_change_without_metadata:
  assumes "s1 = foldl (\<lambda>s l. registerNonRouterCurrentEntryChangeListener l s) s0 ls"
    and "s2 = fst (handleNavigate ev h s1)"
  shows "info s2 = event_info ev
   \<and> subscriptions s1 = subscriptions s0 @ ls
   \<and> (snd (constructor injected u mk entry) = Inr s0 \<longrightarrow> subscriptions s1 = ls)
   \<and> (\<not> truthy (event_info ev) \<longrightarrow>
        handleCurrentEntryChange e s2
          = (map (\<lambda>l. ListenerCall l (entry_url (currentEntry e)) (entry_state (currentEntry e)))
               (subscriptions s0 @ ls),
             s2)
        \<and> currentUrlTree s2 = currentUrlTree s0
        \<and> rawUrlTree s2 = rawUrlTree s0
        \<and> routerState s2 = routerState s0
        \<and> activeHistoryEntry s2 = activeHistoryEntry s0)
   \<and> (event_info ev = Undefined \<longrightarrow>
        handleCurrentEntryChange e s2
          = (map (\<lambda>l. ListenerCall l (entry_url (currentEntry e)) (entry_state (currentEntry e)))
               (subscriptions s0 @ ls),
             s1\<lparr>info := Undefined\<rparr>))
   \<and> (truthy (event_info ev) \<longrightarrow> fst (handleCurrentEntryChange e s2) = [])"
proof -
  have sub: "subscriptions s1 = subscriptions s0 @ ls"
    and keep: "currentUrlTree s1 = currentUrlTree s0" "rawUrlTree s1 = rawUrlTree s0"
      "routerState s1 = routerState s0" "activeHistoryEntry s1 = activeHistoryEntry s0"
    unfolding assms(1) by (simp_all add: register_all)
  have s2: "s2 = s1\<lparr>info := event_info ev\<rparr>"
    unfolding assms(2) by (rule handleNavigate_state)
  have built: "snd (constructor injected u mk entry) = Inr s0 \<longrightarrow> subscriptions s1 = ls"
    using sub constructor_no_subscriptions [of injected u mk entry s0] by simp
  show ?thesis
    using sub keep built unfolding s2
    by (simp add: handleCurrentEntryChange_def emit_def)
qed

theorem entry_change_without_metadata_witness:
  "constructor (Some demo_config) ''/'' (\<lambda>u. 0) demo_active
     = ([NavAddEventListener ''navigate'', NavAddEventListener ''currententrychange''],
        Inr demo_initial)
   \<and> foldl (\<lambda>s l. registerNonRouterCurrentEntryChangeListener l s) demo_initial [5, 6]
     = demo_initial\<lparr>subscriptions := [5, 6]\<rparr>
   \<and> \<not> truthy Undefined
   \<and> handleCurrentEntryChange (demo_env demo_pushed)
        (fst (handleNavigate \<lparr>event_ref = 4, event_info = Undefined, canIntercept = True\<rparr>
                (\<lambda>r. demo_nav)
                (foldl (\<lambda>s l. registerNonRouterCurrentEntryChangeListener l s) demo_initial [5, 6])))
      = ([ListenerCall 5 (Some ''/b?x=2'') None, ListenerCall 6 (Some ''/b?x=2'') None],
         demo_initial\<lparr>subscriptions := [5, 6]\<rparr>)
   \<and> truthy (Str ''rollback'')
   \<and> fst (handleCurrentEntryChange (demo_env demo_pushed)
        (fst (handleNavigate \<lparr>event_ref = 4, event_info = Str ''rollback'', canIntercept = True\<rparr>
                (\<lambda>r. demo_nav)
                (foldl (\<lambda>s l. registerNonRouterCurrentEntryChangeListener l s) demo_initial [5, 6]))))
      = []"
proof -
  have c: "constructor (Some demo_config) ''/'' (\<lambda>u. 0) demo_active
     = ([NavAddEventListener ''navigate'', NavAddEventListener ''currententrychange''],
        Inr demo_initial)"
    by (simp add: constructor_def or_default_def demo_config_def demo_initial_def Let_def)
  have r: "foldl (\<lambda>s l. registerNonRouterCurrentEntryChangeListener l s) demo_initial [5, 6]
     = demo_initial\<lparr>subscriptions := [5, 6]\<rparr>"
    by (simp add: registerNonRouterCurrentEntryChangeListener_def demo_initial_def)
  note t1 = entry_change_without_metadata
      [OF refl refl, of "\<lparr>event_ref = 4, event_info = Undefined, canIntercept = True\<rparr>"
         "\<lambda>r. demo_nav" demo_initial "[5, 6]" "Some demo_config" "''/''" "\<lambda>u. 0" demo_active
         "demo_env demo_pushed"]
  note t2 = entry_change_without_metadata
      [OF refl refl, of "\<lparr>event_ref = 4, event_info = Str ''rollback'', canIntercept = True\<rparr>"
         "\<lambda>r. demo_nav" demo_initial "[5, 6]" "Some demo_config" "''/''" "\<lambda>u. 0" demo_active
         "demo_env demo_pushed"]
  show ?thesis
    using c r t1 t2
    by (simp add: demo demo_initial_def handleNavigate_state
        registerNonRouterCurrentEntryChangeListener_def)
qed

section \<open>Deferred commit\<close>



end
